theory Spec2Isabelle
  imports Main "HOL-Library.Word" "HOL-Library.Multiset"
begin

unbundle bit_operations_syntax

section \<open>Basic types\<close>

text \<open>
  A UUID is an opaque 128-bit identifier; only equality and the comparison with
  \<open>uuid.Nil\<close> are used by the server, so it is a natural number with \<open>0\<close> as
  \<open>uuid.Nil\<close>. Instants of \<open>time.Time\<close> are integers on one time line (only
  \<open>After\<close>, \<open>Add\<close> and SQL's \<open><\<close>, \<open>>\<close> are used).
\<close>

type_synonym uuid = nat
type_synonym time = int
type_synonym byte = "8 word"

definition uuid_Nil :: uuid where
  "uuid_Nil = 0"

section \<open>Errors\<close>

text \<open>
  gRPC status codes used by the handlers (\<open>google.golang.org/grpc/codes\<close>).
\<close>

datatype grpc_code = NotFound | Internal | InvalidArgument | Unauthenticated

text \<open>
  \<open>apiErrors.APIError\<close> values of the API module
  (\<open>github.com/dtroode/gophkeeper-api/errors\<close>), kept symbolic: one constructor per
  \<open>NewErr...\<close> function the server calls.
\<close>

datatype api_error =
    ErrRecordNotFound uuid
  | ErrUserNotFound uuid
  | ErrInvalidRecordType string
  | ErrMissingAuthorizationToken

text \<open>
  Modelled from the spec: the API module's error table is not among the sources; section 7
  of the specification maps record-not-found and user-not-found to the NotFound wire code,
  and the handler test asserts InvalidArgument for an invalid record type.
\<close>

fun GRPCCode :: "api_error \<Rightarrow> grpc_code" where
  "GRPCCode (ErrRecordNotFound _) = NotFound"
| "GRPCCode (ErrUserNotFound _) = NotFound"
| "GRPCCode (ErrInvalidRecordType _) = InvalidArgument"
| "GRPCCode ErrMissingAuthorizationToken = Unauthenticated"

text \<open>
  Go error values: the sentinels of package \<open>model\<close>, \<open>io.EOF\<close>, API errors,
  \<open>errors.New\<close>/\<open>fmt.Errorf\<close> without \<open>%w\<close> (\<open>ErrorNew\<close>) and
  \<open>fmt.Errorf("...: %w", err)\<close> (\<open>Errorf\<close>, which wraps \<open>err\<close>).
\<close>

datatype error =
    ErrNotFound
  | ErrTokenRevoked
  | ErrTokenExpired
  | ErrTokenMismatch
  | EOF
  | APIError api_error
  | ErrorNew string
  | Errorf string error

text \<open>\<open>errors.Is\<close>: the error itself or one on its \<open>Unwrap\<close> chain is the target.\<close>

fun errors_Is :: "error \<Rightarrow> error \<Rightarrow> bool" where
  "errors_Is (Errorf m e) target = (Errorf m e = target \<or> errors_Is e target)"
| "errors_Is e target = (e = target)"

section \<open>The world the server runs in\<close>

text \<open>
  The relational store, the blob store and the wall clock are external to the services
  (they are reached through the interfaces \<open>model.RefreshTokenStore\<close>,
  \<open>model.RecordStore\<close>, \<open>model.UserStore\<close> and \<open>model.Storage\<close>). The
  world holds their contents. Every call to a backend takes the next entry of that
  backend's schedule: the time the call takes and, possibly, an error the backend
  raises (connection lost, a violated column constraint, ...). An empty schedule means
  the call returns at once and without such an error. \<open>time.Now()\<close> reads
  \<open>clock\<close>.
\<close>

type_synonym schedule = "(nat \<times> error option) list"

record RefreshToken =
  rt_ID :: uuid
  rt_JTI :: string
  rt_UserID :: uuid
  rt_TokenHash :: "byte list"
  rt_IssuedAt :: time
  rt_ExpiresAt :: time
  rt_RevokedAt :: "time option"
  rt_RotatedFromJTI :: "string option"
  rt_CreatedAt :: time
  rt_UpdatedAt :: time

text \<open>\<open>model.User\<close>; the key material, salt and KDF fields play no role here.\<close>

record User =
  us_ID :: uuid
  us_Email :: string
  us_DeletedAt :: "time option"

type_synonym RecordType = string

definition RecordTypeLogin :: RecordType where "RecordTypeLogin = ''login''"
definition RecordTypeNote :: RecordType where "RecordTypeNote = ''note''"
definition RecordTypeCard :: RecordType where "RecordTypeCard = ''card''"
definition RecordTypeBinary :: RecordType where "RecordTypeBinary = ''binary''"

text \<open>
  \<open>model.Record\<close>. \<open>EncryptedData\<close> is a nil-able byte slice (\<open>None\<close> is
  \<open>nil\<close>, SQL \<open>NULL\<close>); \<open>RequestID = uuid_Nil\<close> is stored as \<open>NULL\<close>
  (\<open>NULLIF\<close> in the insert). The same record type is used for the rows of table
  \<open>records\<close>.
\<close>

record Record =
  OwnerID :: uuid
  CreatedAt :: time
  UpdatedAt :: time
  DeletedAt :: "time option"
  Name :: string
  Description :: string
  EncryptedKey :: "byte list"
  Alg :: string
  ID :: uuid
  Type :: RecordType
  EncryptedData :: "byte list option"
  S3Key :: string
  EncryptedChunkSize :: int
  RequestID :: uuid

datatype s3_call = S3Upload string | S3Download string | S3Delete string

record world =
  clock :: time
  db_sched :: schedule
  users :: "User list"
  refresh_tokens :: "RefreshToken list"
  records :: "Record list"
  s3_sched :: schedule
  objects :: "(string \<times> byte list) list"
  s3_calls :: "s3_call list"
  logs :: "string list"

definition db_call :: "world \<Rightarrow> error option \<times> world" where
  "db_call w =
     (case db_sched w of
        [] \<Rightarrow> (None, w)
      | (d, fault) # rest \<Rightarrow> (fault, w\<lparr>clock := clock w + int d, db_sched := rest\<rparr>))"

definition s3_call :: "world \<Rightarrow> s3_call \<Rightarrow> error option \<times> world" where
  "s3_call w c =
     (case s3_sched w of
        [] \<Rightarrow> (None, w\<lparr>s3_calls := s3_calls w @ [c]\<rparr>)
      | (d, fault) # rest \<Rightarrow>
          (fault, w\<lparr>clock := clock w + int d, s3_sched := rest, s3_calls := s3_calls w @ [c]\<rparr>))"


text \<open>Time passing between two requests.\<close>

definition advance :: "world \<Rightarrow> nat \<Rightarrow> world" where
  "advance w d = w\<lparr>clock := clock w + int d\<rparr>"

definition logger :: "world \<Rightarrow> string \<Rightarrow> world" where
  "logger w msg = w\<lparr>logs := logs w @ [msg]\<rparr>"

section \<open>Token manager\<close>

text \<open>
  A token string is a JWT: claims signed with HMAC-SHA256 under a secret key. The model
  keeps the structure instead of the encoding: \<open>Signed k c\<close> is the compact
  serialisation of claims \<open>c\<close> with a valid signature under key \<open>k\<close>, and
  \<open>Malformed s\<close> is any other string. Durations are nanoseconds, as
  \<open>time.Duration\<close>.
\<close>

record Claims =
  cl_ID :: string
  cl_IssuedAt :: time
  cl_ExpiresAt :: time
  cl_UserID :: uuid
  cl_TokenType :: string

datatype token = Signed string Claims | Malformed string

definition Second :: int where "Second = 1000000000"
definition Minute :: int where "Minute = 60 * Second"
definition Hour :: int where "Hour = 60 * Minute"

definition accessTTL :: int where "accessTTL = 15 * Minute"
definition refreshTTL :: int where "refreshTTL = 30 * 24 * Hour"
definition typeAccess :: string where "typeAccess = ''access''"
definition typeRefresh :: string where "typeRefresh = ''refresh''"

text \<open>
  \<open>jwt.NewNumericDate\<close>: the instant truncated to \<open>jwt.TimePrecision\<close>, which is
  one second (\<open>t.Truncate(time.Second)\<close> rounds down to a whole second).
\<close>

definition NewNumericDate :: "time \<Rightarrow> time" where
  "NewNumericDate t = t - t mod Second"

definition GenerateAccessToken :: "string \<Rightarrow> time \<Rightarrow> uuid \<Rightarrow> token" where
  "GenerateAccessToken secretKey now userID =
     Signed secretKey \<lparr>cl_ID = [], cl_IssuedAt = NewNumericDate now,
                       cl_ExpiresAt = NewNumericDate (now + accessTTL),
                       cl_UserID = userID, cl_TokenType = typeAccess\<rparr>"

text \<open>
  \<open>jti\<close> is the value of \<open>uuid.NewString()\<close>. Signing with an HMAC key given
  as bytes does not fail, so the generators have no error result here.
\<close>

definition GenerateRefreshToken :: "string \<Rightarrow> time \<Rightarrow> uuid \<Rightarrow> string \<Rightarrow> token \<times> string" where
  "GenerateRefreshToken secretKey now userID jti =
     (Signed secretKey \<lparr>cl_ID = jti, cl_IssuedAt = NewNumericDate now,
                        cl_ExpiresAt = NewNumericDate (now + refreshTTL),
                        cl_UserID = userID, cl_TokenType = typeRefresh\<rparr>, jti)"

text \<open>
  \<open>jwt.ParseWithClaims\<close> (golang-jwt v5, no leeway) rejects a string that is not a
  JWT signed under the key and a token whose \<open>exp\<close> is not after the current time.
\<close>

definition ParseWithClaims :: "string \<Rightarrow> time \<Rightarrow> token \<Rightarrow> error + Claims" where
  "ParseWithClaims secretKey now tokenString =
     (case tokenString of
        Malformed s \<Rightarrow> Inl (ErrorNew ''token is malformed'')
      | Signed k c \<Rightarrow>
          if k \<noteq> secretKey then Inl (ErrorNew ''signature is invalid'')
          else if \<not> now < cl_ExpiresAt c then Inl (ErrorNew ''token is expired'')
          else Inr c)"

definition ParseAccessToken :: "string \<Rightarrow> time \<Rightarrow> token \<Rightarrow> error + uuid" where
  "ParseAccessToken secretKey now tokenString =
     (case ParseWithClaims secretKey now tokenString of
        Inl err \<Rightarrow> Inl (Errorf ''failed to parse access token'' err)
      | Inr claims \<Rightarrow>
          if cl_TokenType claims \<noteq> typeAccess then Inl (ErrorNew ''token type mismatch'')
          else Inr (cl_UserID claims))"

definition ParseRefreshToken :: "string \<Rightarrow> time \<Rightarrow> token \<Rightarrow> error + uuid \<times> string" where
  "ParseRefreshToken secretKey now tokenString =
     (case ParseWithClaims secretKey now tokenString of
        Inl err \<Rightarrow> Inl (Errorf ''failed to parse refresh token'' err)
      | Inr claims \<Rightarrow>
          if cl_TokenType claims \<noteq> typeRefresh then Inl (ErrorNew ''token type mismatch'')
          else Inr (cl_UserID claims, cl_ID claims))"

section \<open>Refresh-token repository\<close>

text \<open>
  The constraints of table \<open>refresh_tokens\<close> in its migration:
  \<open>id UUID PRIMARY KEY\<close>, \<open>jti TEXT NOT NULL UNIQUE\<close> and
  \<open>user_id UUID NOT NULL REFERENCES users(id)\<close>.
\<close>

definition id_taken :: "RefreshToken list \<Rightarrow> uuid \<Rightarrow> bool" where
  "id_taken tbl i = list_ex (\<lambda>r. rt_ID r = i) tbl"

definition jti_taken :: "RefreshToken list \<Rightarrow> string \<Rightarrow> bool" where
  "jti_taken tbl jti = list_ex (\<lambda>r. rt_JTI r = jti) tbl"

definition user_exists :: "User list \<Rightarrow> uuid \<Rightarrow> bool" where
  "user_exists tbl uid = list_ex (\<lambda>u. us_ID u = uid) tbl"

text \<open>
  \<open>RefreshTokenRepository.Create\<close>; \<open>fresh\<close> is the value \<open>uuid.New()\<close> yields
  when the token carries no id. The insert sets both timestamps to \<open>NOW()\<close> and fails
  when it violates one of the table's constraints.
\<close>

definition RefreshTokenRepository_Create :: "world \<Rightarrow> RefreshToken \<Rightarrow> uuid \<Rightarrow> error option \<times> world" where
  "RefreshTokenRepository_Create w token fresh =
     (let token1 = (if rt_ID token = uuid_Nil then token\<lparr>rt_ID := fresh\<rparr> else token)
      in case db_call w of
           (Some err, w1) \<Rightarrow> (Some (Errorf ''failed to create refresh token'' err), w1)
         | (None, w1) \<Rightarrow>
             if id_taken (refresh_tokens w1) (rt_ID token1)
             then (Some (Errorf ''failed to create refresh token''
                      (ErrorNew ''duplicate key value violates unique constraint'')), w1)
             else if jti_taken (refresh_tokens w1) (rt_JTI token1)
             then (Some (Errorf ''failed to create refresh token''
                      (ErrorNew ''duplicate key value violates unique constraint'')), w1)
             else if \<not> user_exists (users w1) (rt_UserID token1)
             then (Some (Errorf ''failed to create refresh token''
                      (ErrorNew ''violates foreign key constraint'')), w1)
             else (None, w1\<lparr>refresh_tokens := refresh_tokens w1 @
                      [token1\<lparr>rt_CreatedAt := clock w1, rt_UpdatedAt := clock w1\<rparr>]\<rparr>))"

definition GetByJTI :: "world \<Rightarrow> string \<Rightarrow> (error + RefreshToken) \<times> world" where
  "GetByJTI w jti =
     (case db_call w of
        (Some err, w1) \<Rightarrow> (Inl (Errorf ''failed to get refresh token by jti'' err), w1)
      | (None, w1) \<Rightarrow>
          (case find (\<lambda>r. rt_JTI r = jti) (refresh_tokens w1) of
             None \<Rightarrow> (Inl ErrNotFound, w1)
           | Some rt \<Rightarrow> (Inr rt, w1)))"

definition revoke_row :: "time \<Rightarrow> RefreshToken \<Rightarrow> RefreshToken" where
  "revoke_row now r = r\<lparr>rt_RevokedAt := Some now, rt_UpdatedAt := now\<rparr>"

text \<open>
  \<open>UPDATE refresh_tokens SET revoked_at = NOW(), updated_at = NOW() WHERE P AND
  revoked_at IS NULL\<close>.
\<close>

definition revoke_where :: "(RefreshToken \<Rightarrow> bool) \<Rightarrow> time \<Rightarrow> RefreshToken list \<Rightarrow> RefreshToken list" where
  "revoke_where P now tbl =
     map (\<lambda>r. if P r \<and> rt_RevokedAt r = None then revoke_row now r else r) tbl"

definition RevokeByJTI :: "world \<Rightarrow> string \<Rightarrow> error option \<times> world" where
  "RevokeByJTI w jti =
     (case db_call w of
        (Some err, w1) \<Rightarrow> (Some (Errorf ''failed to revoke refresh token'' err), w1)
      | (None, w1) \<Rightarrow>
          (None, w1\<lparr>refresh_tokens :=
             revoke_where (\<lambda>r. rt_JTI r = jti) (clock w1) (refresh_tokens w1)\<rparr>))"

definition RevokeAllByUser :: "world \<Rightarrow> uuid \<Rightarrow> error option \<times> world" where
  "RevokeAllByUser w userID =
     (case db_call w of
        (Some err, w1) \<Rightarrow> (Some (Errorf ''failed to revoke refresh tokens by user'' err), w1)
      | (None, w1) \<Rightarrow>
          (None, w1\<lparr>refresh_tokens :=
             revoke_where (\<lambda>r. rt_UserID r = userID) (clock w1) (refresh_tokens w1)\<rparr>))"

section \<open>Token service\<close>

text \<open>
  \<open>crypto/subtle.ConstantTimeCompare\<close>: after the length check every byte pair is
  folded into the accumulator \<open>v |= x[i] ^ y[i]\<close>; there is no exit inside the loop.
\<close>

fun xor_fold :: "byte \<Rightarrow> byte list \<Rightarrow> byte list \<Rightarrow> byte" where
  "xor_fold v (x # xs) (y # ys) = xor_fold (v OR (x XOR y)) xs ys"
| "xor_fold v _ _ = v"

definition ConstantTimeCompare :: "byte list \<Rightarrow> byte list \<Rightarrow> int" where
  "ConstantTimeCompare x y =
     (if length x \<noteq> length y then 0
      else if xor_fold 0 x y = 0 then 1 else 0)"

definition equalBytes :: "byte list \<Rightarrow> byte list \<Rightarrow> bool" where
  "equalBytes a b = (ConstantTimeCompare a b = 1)"

text \<open>\<open>validateRecord\<close>; \<open>None\<close> is Go's \<open>nil\<close> error.\<close>

definition validateRecord :: "RefreshToken \<Rightarrow> byte list \<Rightarrow> time \<Rightarrow> error option" where
  "validateRecord rt presentedHash now =
     (if rt_RevokedAt rt \<noteq> None then Some ErrTokenRevoked
      else if now > rt_ExpiresAt rt then Some ErrTokenExpired
      else if \<not> equalBytes (rt_TokenHash rt) presentedHash then Some ErrTokenMismatch
      else None)"

text \<open>
  The service: the manager's secret key and SHA-256 (\<open>hashRefresh\<close>), which is a
  parameter of the model.
\<close>

record TokenService =
  secretKey :: string
  hashRefresh :: "token \<Rightarrow> byte list"

text \<open>
  \<open>TokenService.Issue\<close>. \<open>newID\<close>, \<open>jti\<close> and \<open>repoID\<close> are the values drawn
  by \<open>uuid.New()\<close> in the service, \<open>uuid.NewString()\<close> in the manager and
  \<open>uuid.New()\<close> in the repository.
\<close>

definition Issue ::
  "TokenService \<Rightarrow> world \<Rightarrow> uuid \<Rightarrow> uuid \<Rightarrow> string \<Rightarrow> uuid \<Rightarrow> (error + token \<times> token) \<times> world" where
  "Issue s w userID newID jti repoID =
     (let access = GenerateAccessToken (secretKey s) (clock w) userID;
          (refresh, jti1) = GenerateRefreshToken (secretKey s) (clock w) userID jti;
          now = clock w;
          rt = \<lparr>rt_ID = newID, rt_JTI = jti1, rt_UserID = userID,
                rt_TokenHash = hashRefresh s refresh, rt_IssuedAt = now,
                rt_ExpiresAt = now + refreshTTL, rt_RevokedAt = None,
                rt_RotatedFromJTI = None, rt_CreatedAt = now, rt_UpdatedAt = now\<rparr>
      in case RefreshTokenRepository_Create w rt repoID of
           (Some err, w1) \<Rightarrow> (Inl (Errorf ''persist refresh'' err), w1)
         | (None, w1) \<Rightarrow> (Inr (access, refresh), w1))"

text \<open>
  \<open>TokenService.Refresh\<close> up to and including the validation of the stored row
  (\<open>Refresh_validate\<close>), and from the revocation on (\<open>Refresh_rotate\<close>).
  \<open>Refresh\<close> runs one after the other.
\<close>

definition Refresh_validate ::
  "TokenService \<Rightarrow> world \<Rightarrow> token \<Rightarrow> (error + uuid \<times> string \<times> RefreshToken) \<times> world" where
  "Refresh_validate s w presentedRefresh =
     (case ParseRefreshToken (secretKey s) (clock w) presentedRefresh of
        Inl err \<Rightarrow> (Inl err, w)
      | Inr (userID, jti) \<Rightarrow>
          (case GetByJTI w jti of
             (Inl err, w1) \<Rightarrow> (Inl err, w1)
           | (Inr rt, w1) \<Rightarrow>
               (case validateRecord rt (hashRefresh s presentedRefresh) (clock w1) of
                  Some err \<Rightarrow> (Inl err, w1)
                | None \<Rightarrow> (Inr (userID, jti, rt), w1))))"

definition Refresh_rotate ::
  "TokenService \<Rightarrow> world \<Rightarrow> uuid \<times> string \<times> RefreshToken \<Rightarrow> uuid \<Rightarrow> string \<Rightarrow> uuid \<Rightarrow>
     (error + token \<times> token) \<times> world" where
  "Refresh_rotate s w loaded newID newJTI repoID =
     (case loaded of (userID, jti, rt) \<Rightarrow>
        (case RevokeByJTI w jti of
           (Some err, w1) \<Rightarrow> (Inl (Errorf ''revoke old refresh'' err), w1)
         | (None, w1) \<Rightarrow>
             (let access = GenerateAccessToken (secretKey s) (clock w1) userID;
                  (refresh, newJTI1) = GenerateRefreshToken (secretKey s) (clock w1) userID newJTI;
                  now = clock w1;
                  rotatedFrom = rt_JTI rt;
                  newRT = \<lparr>rt_ID = newID, rt_JTI = newJTI1, rt_UserID = userID,
                           rt_TokenHash = hashRefresh s refresh, rt_IssuedAt = now,
                           rt_ExpiresAt = now + refreshTTL, rt_RevokedAt = None,
                           rt_RotatedFromJTI = Some rotatedFrom, rt_CreatedAt = now,
                           rt_UpdatedAt = now\<rparr>
              in case RefreshTokenRepository_Create w1 newRT repoID of
                   (Some err, w2) \<Rightarrow> (Inl (Errorf ''persist new refresh'' err), w2)
                 | (None, w2) \<Rightarrow> (Inr (access, refresh), w2))))"

definition Refresh ::
  "TokenService \<Rightarrow> world \<Rightarrow> token \<Rightarrow> uuid \<Rightarrow> string \<Rightarrow> uuid \<Rightarrow> (error + token \<times> token) \<times> world" where
  "Refresh s w presentedRefresh newID newJTI repoID =
     (case Refresh_validate s w presentedRefresh of
        (Inl err, w1) \<Rightarrow> (Inl err, w1)
      | (Inr loaded, w1) \<Rightarrow> Refresh_rotate s w1 loaded newID newJTI repoID)"

definition RevokeByToken :: "TokenService \<Rightarrow> world \<Rightarrow> token \<Rightarrow> error option \<times> world" where
  "RevokeByToken s w presentedRefresh =
     (case ParseRefreshToken (secretKey s) (clock w) presentedRefresh of
        Inl err \<Rightarrow> (Some err, w)
      | Inr (userID, jti) \<Rightarrow> RevokeByJTI w jti)"

section \<open>Record and user repositories\<close>

text \<open>\<open>model.Record{}\<close>, the zero value.\<close>

definition Record_zero :: Record where
  "Record_zero = \<lparr>OwnerID = uuid_Nil, CreatedAt = 0, UpdatedAt = 0, DeletedAt = None,
     Name = [], Description = [], EncryptedKey = [], Alg = [], ID = uuid_Nil, Type = [],
     EncryptedData = None, S3Key = [], EncryptedChunkSize = 0, RequestID = uuid_Nil\<rparr>"

text \<open>\<open>UserRepository.GetByID\<close>: the user with this id that is not soft-deleted.\<close>

definition UserRepository_GetByID :: "world \<Rightarrow> uuid \<Rightarrow> (error + User) \<times> world" where
  "UserRepository_GetByID w uid =
     (case db_call w of
        (Some err, w1) \<Rightarrow> (Inl (Errorf ''failed to get user by id'' err), w1)
      | (None, w1) \<Rightarrow>
          (case find (\<lambda>u. us_ID u = uid \<and> us_DeletedAt u = None) (users w1) of
             None \<Rightarrow> (Inl ErrNotFound, w1)
           | Some u \<Rightarrow> (Inr u, w1)))"

text \<open>
  The column \<open>request_id\<close> of a row: \<open>NULLIF($11, '00000000-...')\<close> stores the nil
  UUID as \<open>NULL\<close>.
\<close>

definition NULLIF :: "uuid \<Rightarrow> uuid option" where
  "NULLIF x = (if x = uuid_Nil then None else Some x)"

text \<open>
  What \<open>Scan\<close> reads from a row: \<open>Create\<close> returns every column but \<open>owner_id\<close>
  and \<open>request_id\<close> and sets the owner from its argument; \<open>GetByID\<close> selects every
  column but \<open>request_id\<close>; the list queries select neither \<open>encrypted_data\<close> nor
  \<open>request_id\<close>.
\<close>

definition scan_saved :: "uuid \<Rightarrow> Record \<Rightarrow> Record" where
  "scan_saved owner r = r\<lparr>OwnerID := owner, RequestID := uuid_Nil\<rparr>"

definition scan_row :: "Record \<Rightarrow> Record" where
  "scan_row r = r\<lparr>RequestID := uuid_Nil\<rparr>"


text \<open>The arbiter of \<open>ON CONFLICT (owner_id, request_id) WHERE request_id IS NOT NULL\<close>.\<close>

definition same_request :: "uuid \<Rightarrow> uuid option \<Rightarrow> Record \<Rightarrow> bool" where
  "same_request owner req r = (req \<noteq> None \<and> OwnerID r = owner \<and> NULLIF (RequestID r) = req)"

text \<open>
  \<open>RecordRepository.Create\<close>: one statement. If a row with the same owner and request
  id exists, nothing is inserted and that row is selected (\<open>UNION ALL ... WHERE NOT
  EXISTS (SELECT 1 FROM ins)\<close>); otherwise the row is inserted with \<open>created_at\<close>,
  \<open>updated_at\<close> at \<open>NOW()\<close> and \<open>deleted_at\<close> \<open>NULL\<close>, unless the primary key
  or the foreign key to \<open>users\<close> of the migration is violated. As in Go, the result is
  a record and an error; on an error the record is \<open>model.Record{}\<close>.
\<close>

definition RecordRepository_Create :: "world \<Rightarrow> Record \<Rightarrow> (Record \<times> error option) \<times> world" where
  "RecordRepository_Create w record =
     (case db_call w of
        (Some err, w1) \<Rightarrow> ((Record_zero, Some err), w1)
      | (None, w1) \<Rightarrow>
          (let req = NULLIF (RequestID record) in
           case find (same_request (OwnerID record) req) (records w1) of
             Some r \<Rightarrow> ((scan_saved (OwnerID record) r, None), w1)
           | None \<Rightarrow>
               if list_ex (\<lambda>r. ID r = ID record) (records w1)
               then ((Record_zero, Some (ErrorNew ''duplicate key value violates unique constraint'')), w1)
               else if \<not> list_ex (\<lambda>u. us_ID u = OwnerID record) (users w1)
               then ((Record_zero, Some (ErrorNew ''violates foreign key constraint'')), w1)
               else (let row = record\<lparr>CreatedAt := clock w1, UpdatedAt := clock w1,
                                       DeletedAt := None\<rparr>
                     in ((scan_saved (OwnerID record) row, None),
                         w1\<lparr>records := records w1 @ [row]\<rparr>))))"

definition RecordRepository_GetByID :: "world \<Rightarrow> uuid \<Rightarrow> (error + Record) \<times> world" where
  "RecordRepository_GetByID w rid =
     (case db_call w of
        (Some err, w1) \<Rightarrow> (Inl err, w1)
      | (None, w1) \<Rightarrow>
          (case find (\<lambda>r. ID r = rid \<and> DeletedAt r = None) (records w1) of
             None \<Rightarrow> (Inl ErrNotFound, w1)
           | Some r \<Rightarrow> (Inr (scan_row r), w1)))"

definition SoftDelete :: "world \<Rightarrow> uuid \<Rightarrow> error option \<times> world" where
  "SoftDelete w rid =
     (case db_call w of
        (Some err, w1) \<Rightarrow> (Some err, w1)
      | (None, w1) \<Rightarrow>
          if \<not> list_ex (\<lambda>r. ID r = rid \<and> DeletedAt r = None) (records w1)
          then (Some ErrNotFound, w1)
          else (None, w1\<lparr>records :=
                  map (\<lambda>r. if ID r = rid \<and> DeletedAt r = None
                            then r\<lparr>DeletedAt := Some (clock w1), UpdatedAt := clock w1\<rparr> else r)
                    (records w1)\<rparr>))"







section \<open>Blob store\<close>

text \<open>
  An \<open>io.Reader\<close>: the bytes it yields and the error that ends it (\<open>None\<close> is
  \<open>io.EOF\<close>).
\<close>

record Reader =
  r_data :: "byte list"
  r_err :: "error option"

text \<open>
  The MinIO client. \<open>PutObject\<close> stores the object when the reader ends with
  \<open>io.EOF\<close> and fails when the reader ends with an error. \<open>GetObject\<close> is lazy: a
  missing key shows as an error of the first read.
\<close>

definition Upload :: "world \<Rightarrow> string \<Rightarrow> Reader \<Rightarrow> error option \<times> world" where
  "Upload w key reader =
     (case s3_call w (S3Upload key) of
        (Some err, w1) \<Rightarrow> (Some (Errorf ''failed to upload object'' err), w1)
      | (None, w1) \<Rightarrow>
          (case r_err reader of
             Some err \<Rightarrow> (Some (Errorf ''failed to upload object'' err), w1)
           | None \<Rightarrow>
               (None, w1\<lparr>objects := (key, r_data reader) # filter (\<lambda>kv. fst kv \<noteq> key) (objects w1)\<rparr>)))"

definition Download :: "world \<Rightarrow> string \<Rightarrow> (error + Reader) \<times> world" where
  "Download w key =
     (case s3_call w (S3Download key) of
        (Some err, w1) \<Rightarrow> (Inl (Errorf ''failed to get object'' err), w1)
      | (None, w1) \<Rightarrow>
          (case map_of (objects w1) key of
             Some d \<Rightarrow> (Inr \<lparr>r_data = d, r_err = None\<rparr>, w1)
           | None \<Rightarrow> (Inr \<lparr>r_data = [], r_err = Some (ErrorNew ''The specified key does not exist.'')\<rparr>, w1)))"

definition Delete :: "world \<Rightarrow> string \<Rightarrow> error option \<times> world" where
  "Delete w key =
     (case s3_call w (S3Delete key) of
        (Some err, w1) \<Rightarrow> (Some (Errorf ''failed to delete object'' err), w1)
      | (None, w1) \<Rightarrow> (None, w1\<lparr>objects := filter (\<lambda>kv. fst kv \<noteq> key) (objects w1)\<rparr>))"

section \<open>Record service\<close>

text \<open>
  \<open>saveRecord\<close>. The short variable declaration \<open>record, err := s.recordStore.Create(ctx,
  record)\<close> assigns to the parameter \<open>record\<close>, so the compensation below reads the key
  of the record that \<open>Create\<close> returned.
\<close>

definition saveRecord :: "world \<Rightarrow> Record \<Rightarrow> Reader option \<Rightarrow> (error + Record) \<times> world" where
  "saveRecord w record dataReader =
     (case (case dataReader of
              None \<Rightarrow> (None, w)
            | Some reader \<Rightarrow>
                if S3Key record = [] then (Some (ErrorNew ''S3 key is empty''), w)
                else (case Upload w (S3Key record) reader of
                        (Some err, w1) \<Rightarrow> (Some (Errorf ''failed to upload to storage'' err), w1)
                      | (None, w1) \<Rightarrow> (None, w1))) of
        (Some err, w1) \<Rightarrow> (Inl err, w1)
      | (None, w1) \<Rightarrow>
          (case RecordRepository_Create w1 record of
             ((record1, None), w2) \<Rightarrow> (Inr record1, w2)
           | ((record1, Some err), w2) \<Rightarrow>
               (let w3 = (if S3Key record1 \<noteq> []
                          then (case Delete w2 (S3Key record1) of
                                  (Some derr, w') \<Rightarrow> logger w' ''Failed to delete record from storage''
                                | (None, w') \<Rightarrow> w')
                          else w2)
                in (Inl (Errorf ''failed to create record'' err), w3))))"



definition GetRecord :: "world \<Rightarrow> uuid \<Rightarrow> uuid \<Rightarrow> (error + Record) \<times> world" where
  "GetRecord w userID recordID =
     (case RecordRepository_GetByID w recordID of
        (Inl err, w1) \<Rightarrow> (Inl (Errorf ''failed to get record by id'' err), w1)
      | (Inr record, w1) \<Rightarrow>
          if OwnerID record \<noteq> userID then (Inl (APIError (ErrRecordNotFound recordID)), w1)
          else (Inr record, w1))"

definition DeleteRecord :: "world \<Rightarrow> uuid \<Rightarrow> uuid \<Rightarrow> error option \<times> world" where
  "DeleteRecord w userID recordID =
     (case RecordRepository_GetByID w recordID of
        (Inl err, w1) \<Rightarrow>
          if errors_Is err ErrNotFound then (Some (APIError (ErrRecordNotFound recordID)), w1)
          else (Some (Errorf ''failed to get record'' err), w1)
      | (Inr record, w1) \<Rightarrow>
          if OwnerID record \<noteq> userID then (Some (APIError (ErrRecordNotFound recordID)), w1)
          else
            (let w2 = (if S3Key record \<noteq> []
                       then (case Delete w1 (S3Key record) of
                               (Some err, w') \<Rightarrow> logger w' ''Failed to delete object from storage''
                             | (None, w') \<Rightarrow> w')
                       else w1)
             in case SoftDelete w2 recordID of
                  (Some err, w3) \<Rightarrow>
                    if errors_Is err ErrNotFound then (Some (APIError (ErrRecordNotFound recordID)), w3)
                    else (Some (Errorf ''failed to soft delete record'' err), w3)
                | (None, w3) \<Rightarrow> (None, w3)))"


section \<open>Wire errors of the record handler\<close>

datatype message = Msg string | APIMessage api_error

datatype status = Status grpc_code message

text \<open>
  \<open>handleError\<close>: a type assertion on the error itself, then a \<open>switch\<close> that
  compares the error itself with \<open>model.ErrNotFound\<close>; neither looks through
  \<open>fmt.Errorf\<close> wrappers.
\<close>

fun handleError :: "error \<Rightarrow> status" where
  "handleError (APIError apiErr) = Status (GRPCCode apiErr) (APIMessage apiErr)"
| "handleError ErrNotFound = Status NotFound (Msg ''record not found'')"
| "handleError _ = Status Internal (Msg ''internal server error'')"

text \<open>
  The \<open>GetRecord\<close> endpoint for an authenticated caller and a well-formed record id:
  the record of the response, or the status of the failure.
\<close>

definition handler_GetRecord :: "world \<Rightarrow> uuid \<Rightarrow> uuid \<Rightarrow> (status + Record) \<times> world" where
  "handler_GetRecord w userID recordID =
     (case GetRecord w userID recordID of
        (Inl err, w1) \<Rightarrow> (Inl (handleError err), w1)
      | (Inr rec, w1) \<Rightarrow> (Inr rec, w1))"

text \<open>
  The \<open>DeleteRecord\<close> endpoint for an authenticated caller and a well-formed record
  id: the status of the failure, if any.
\<close>

definition handler_DeleteRecord :: "world \<Rightarrow> uuid \<Rightarrow> uuid \<Rightarrow> status option \<times> world" where
  "handler_DeleteRecord w userID recordID =
     (case DeleteRecord w userID recordID of
        (Some err, w1) \<Rightarrow> (Some (handleError err), w1)
      | (None, w1) \<Rightarrow> (None, w1))"

section \<open>Streaming\<close>

record RecordMetadata =
  md_ID :: string
  md_Name :: string
  md_Description :: string
  md_Type :: RecordType
  md_EncryptedKey :: "byte list"
  md_Alg :: string
  md_ChunkSize :: int
  md_RequestID :: uuid

text \<open>
  A frame of the upload stream (\<open>model.CreateRecordStreamRequest\<close>); \<open>Metadata\<close> is
  a pointer and \<open>DataChunk\<close> a slice, both may be \<open>nil\<close>.
\<close>

record CreateRecordStreamRequest =
  Metadata :: "RecordMetadata option"
  DataChunk :: "byte list option"
  IsMetadata :: bool

text \<open>A frame of the download stream (\<open>model.GetRecordStreamResponse\<close>).\<close>

record GetRecordStreamResponse =
  resp_Metadata :: "RecordMetadata option"
  resp_DataChunk :: "byte list option"
  IsLastChunk :: bool

text \<open>
  A \<open>model.StreamReader\<close> is the list of the results its \<open>Recv\<close> calls will give;
  when the list is used up \<open>Recv\<close> gives \<open>io.EOF\<close>.
\<close>

type_synonym StreamReader = "(error + CreateRecordStreamRequest) list"

fun Recv :: "StreamReader \<Rightarrow> (error + CreateRecordStreamRequest) \<times> StreamReader" where
  "Recv [] = (Inl EOF, [])"
| "Recv (x # xs) = (x, xs)"

text \<open>
  A request context: what the successive polls of \<open>ctx.Done()\<close> will see, \<open>Some err\<close>
  for a context that is done with \<open>ctx.Err() = err\<close>. An empty list is a context that
  is never cancelled.
\<close>

type_synonym Context = "error option list"

fun ctx_Done :: "Context \<Rightarrow> error option \<times> Context" where
  "ctx_Done [] = (None, [])"
| "ctx_Done (c # cs) = (c, cs)"

text \<open>
  A \<open>model.StreamWriter\<close>: the frames sent so far and the outcomes of the next
  \<open>Send\<close> calls.
\<close>

record StreamWriter =
  sent :: "GetRecordStreamResponse list"
  send_sched :: "error option list"

definition Send :: "StreamWriter \<Rightarrow> GetRecordStreamResponse \<Rightarrow> error option \<times> StreamWriter" where
  "Send sw resp =
     (case send_sched sw of
        [] \<Rightarrow> (None, sw\<lparr>sent := sent sw @ [resp]\<rparr>)
      | Some err # rest \<Rightarrow> (Some err, sw\<lparr>send_sched := rest\<rparr>)
      | None # rest \<Rightarrow> (None, sw\<lparr>sent := sent sw @ [resp], send_sched := rest\<rparr>))"

subsection \<open>Streaming create\<close>

definition maxAttempts :: nat where
  "maxAttempts = 100"

definition ErrProtocolViolation :: error where
  "ErrProtocolViolation = ErrorNew ''received data chunk before metadata - protocol violation''"

definition ErrMetadataNotReceived :: error where
  "ErrMetadataNotReceived = ErrorNew ''metadata not received after 100 attempts''"

text \<open>
  \<open>readMetadataFromStream\<close>: the loop with its counter \<open>attempts\<close>. It returns the
  metadata or the error, and what is left of the context and of the stream.
\<close>

function readMetadataLoop ::
  "nat \<Rightarrow> Context \<Rightarrow> StreamReader \<Rightarrow> (error + RecordMetadata) \<times> Context \<times> StreamReader" where
  "readMetadataLoop attempts ctx stream =
     (if attempts < maxAttempts then
        (case ctx_Done ctx of
           (Some cerr, ctx1) \<Rightarrow>
             (Inl (Errorf ''context cancelled while reading metadata'' cerr), ctx1, stream)
         | (None, ctx1) \<Rightarrow>
             (case Recv stream of
                (Inl err, stream1) \<Rightarrow>
                  if err = EOF then (Inl (ErrorNew ''stream closed before metadata received''), ctx1, stream1)
                  else (Inl (Errorf ''failed to receive from stream'' err), ctx1, stream1)
              | (Inr req, stream1) \<Rightarrow>
                  if IsMetadata req then
                    (case Metadata req of
                       None \<Rightarrow> readMetadataLoop (attempts + 1) ctx1 stream1
                     | Some md \<Rightarrow> (Inr md, ctx1, stream1))
                  else if DataChunk req \<noteq> None \<and> length (the (DataChunk req)) > 0
                  then (Inl ErrProtocolViolation, ctx1, stream1)
                  else readMetadataLoop (attempts + 1) ctx1 stream1))
      else (Inl ErrMetadataNotReceived, ctx, stream))"
  by pat_completeness auto
termination
  by (relation "measure (\<lambda>(attempts, ctx, stream). maxAttempts - attempts)") auto

definition readMetadataFromStream ::
  "Context \<Rightarrow> StreamReader \<Rightarrow> (error + RecordMetadata) \<times> Context \<times> StreamReader" where
  "readMetadataFromStream ctx stream = readMetadataLoop 0 ctx stream"


definition validateMetadata :: "RecordMetadata option \<Rightarrow> error option" where
  "validateMetadata metadata =
     (case metadata of
        None \<Rightarrow> Some (ErrorNew ''metadata is nil'')
      | Some md \<Rightarrow>
          if md_Name md = [] then Some (ErrorNew ''record name is required'')
          else if length (md_Name md) > 255 then Some (ErrorNew ''record name too long (max 255 characters)'')
          else if md_Type md = [] then Some (ErrorNew ''record type is required'')
          else if md_Type md \<notin> set [RecordTypeLogin, RecordTypeNote, RecordTypeCard, RecordTypeBinary]
          then Some (ErrorNew ''invalid record type'')
          else if length (md_EncryptedKey md) = 0 then Some (ErrorNew ''encrypted key is required'')
          else if md_Alg md = [] then Some (ErrorNew ''encryption algorithm is required'')
          else if md_Type md = RecordTypeBinary \<and> md_ChunkSize md \<le> 0
          then Some (ErrorNew ''chunk size must be > 0 for binary records'')
          else None)"

text \<open>
  The textual form of a UUID. The model renders the number in decimal: as the canonical
  form it is never empty and differs for different UUIDs.
\<close>

function uuid_String :: "uuid \<Rightarrow> string" where
  "uuid_String n =
     (if n < 10 then [char_of (48 + n)]
      else uuid_String (n div 10) @ [char_of (48 + n mod 10)])"
  by pat_completeness auto
termination
  by (relation "measure id") auto

text \<open>\<open>generateS3Key\<close>; \<open>recordID\<close> and \<open>fileID\<close> are values of \<open>uuid.New()\<close>.\<close>

definition generateS3Key :: "uuid \<Rightarrow> uuid \<Rightarrow> uuid \<Rightarrow> string" where
  "generateS3Key userID recordID fileID =
     (if userID = uuid_Nil then []
      else ''user-'' @ uuid_String userID @ ''/record-'' @ uuid_String recordID @
           ''/file-'' @ uuid_String fileID)"

text \<open>
  The goroutine of \<open>CreateRecordStream\<close> that copies the rest of the stream into the
  pipe, together with the pipe: the result is what the reading end of the pipe yields
  to \<open>Upload\<close> (the bytes written, then \<open>io.EOF\<close> or the error the pipe was closed
  with), and the warnings logged. The uploader is taken to read the pipe to its end.
\<close>

function pump :: "Context \<Rightarrow> StreamReader \<Rightarrow> byte list \<Rightarrow> string list \<Rightarrow> Reader \<times> string list" where
  "pump ctx stream written warnings =
     (case ctx_Done ctx of
        (Some cerr, ctx1) \<Rightarrow>
          (\<lparr>r_data = written, r_err = Some (Errorf ''context cancelled'' cerr)\<rparr>, warnings)
      | (None, ctx1) \<Rightarrow>
          (case Recv stream of
             (Inl err, stream1) \<Rightarrow>
               if err = EOF then (\<lparr>r_data = written, r_err = None\<rparr>, warnings)
               else (\<lparr>r_data = written, r_err = Some (Errorf ''failed to receive from stream'' err)\<rparr>,
                     warnings)
           | (Inr req, stream1) \<Rightarrow>
               if IsMetadata req
               then pump ctx1 stream1 written
                      (warnings @ [''Received metadata after initial metadata, skipping''])
               else (case DataChunk req of
                       None \<Rightarrow> pump ctx1 stream1 written
                                 (warnings @ [''Received nil data chunk, skipping''])
                     | Some chunk \<Rightarrow> pump ctx1 stream1 (written @ chunk) warnings)))"
  by pat_completeness auto
termination
  apply (relation "measure (\<lambda>(ctx, stream, written, warnings). length stream)")
     apply simp
    apply (case_tac stream; simp)+
  done

text \<open>
  \<open>Record.CreateRecordStream\<close>; \<open>keyRecordID\<close>, \<open>keyFileID\<close> and \<open>newID\<close> are the
  values of \<open>uuid.New()\<close> in \<open>generateS3Key\<close> and for the record.
\<close>

definition CreateRecordStream ::
  "world \<Rightarrow> Context \<Rightarrow> uuid \<Rightarrow> StreamReader \<Rightarrow> uuid \<Rightarrow> uuid \<Rightarrow> uuid \<Rightarrow> (error + Record) \<times> world" where
  "CreateRecordStream w ctx userID stream keyRecordID keyFileID newID =
     (case UserRepository_GetByID w userID of
        (Inl err, w1) \<Rightarrow>
          if errors_Is err ErrNotFound then (Inl (APIError (ErrUserNotFound userID)), w1)
          else (Inl (Errorf ''failed to get user by id'' err), w1)
      | (Inr _, w1) \<Rightarrow>
          (case readMetadataFromStream ctx stream of
             (Inl err, ctx1, stream1) \<Rightarrow> (Inl (Errorf ''failed to read metadata'' err), w1)
           | (Inr metadata, ctx1, stream1) \<Rightarrow>
               (case validateMetadata (Some metadata) of
                  Some err \<Rightarrow> (Inl (Errorf ''invalid metadata'' err), w1)
                | None \<Rightarrow>
                    (let s3Key = generateS3Key userID keyRecordID keyFileID in
                     if s3Key = [] then (Inl (ErrorNew ''failed to generate S3 key''), w1)
                     else
                       (let (dataReader, warnings) = pump ctx1 stream1 [] [];
                            record = Record_zero\<lparr>ID := newID, OwnerID := userID,
                               Name := md_Name metadata, Description := md_Description metadata,
                               EncryptedKey := md_EncryptedKey metadata, EncryptedData := None,
                               Alg := md_Alg metadata, Type := md_Type metadata, S3Key := s3Key,
                               EncryptedChunkSize := md_ChunkSize metadata,
                               RequestID := md_RequestID metadata\<rparr>
                        in case saveRecord (w1\<lparr>logs := logs w1 @ warnings\<rparr>) record (Some dataReader) of
                             (Inl err, w2) \<Rightarrow> (Inl (Errorf ''failed to save record'' err), w2)
                           | (Inr record1, w2) \<Rightarrow> (Inr record1, w2))))))"

subsection \<open>Streaming download\<close>

definition buildRecordMetadata :: "Record \<Rightarrow> RecordMetadata" where
  "buildRecordMetadata record =
     \<lparr>md_ID = uuid_String (ID record), md_Name = Name record,
      md_Description = Description record, md_Type = Type record,
      md_EncryptedKey = EncryptedKey record, md_Alg = Alg record,
      md_ChunkSize = EncryptedChunkSize record, md_RequestID = uuid_Nil\<rparr>"

definition GetRecordDataStream :: "world \<Rightarrow> string \<Rightarrow> (error + Reader) \<times> world" where
  "GetRecordDataStream w s3Key =
     (if s3Key = [] then (Inl (ErrorNew ''S3 key is empty''), w)
      else (case Download w s3Key of
              (Inl err, w1) \<Rightarrow> (Inl (Errorf ''failed to download from storage'' err), w1)
            | (Inr reader, w1) \<Rightarrow> (Inr reader, w1)))"

definition ErrUnexpectedEOF :: error where
  "ErrUnexpectedEOF = ErrorNew ''unexpected EOF''"

text \<open>
  \<open>io.ReadFull(reader, buffer)\<close> with a buffer of \<open>n\<close> bytes: the bytes read, the
  error, and the rest of the reader. A full buffer gives no error; with fewer bytes the
  error is the reader's own, where \<open>io.EOF\<close> after at least one byte becomes
  \<open>io.ErrUnexpectedEOF\<close>.
\<close>

definition ReadFull :: "Reader \<Rightarrow> nat \<Rightarrow> byte list \<times> error option \<times> Reader" where
  "ReadFull reader n =
     (if n \<le> length (r_data reader)
      then (take n (r_data reader), None, reader\<lparr>r_data := drop n (r_data reader)\<rparr>)
      else (r_data reader,
            (case r_err reader of
               None \<Rightarrow> if r_data reader = [] then Some EOF else Some ErrUnexpectedEOF
             | Some err \<Rightarrow> Some err),
            reader\<lparr>r_data := []\<rparr>))"

text \<open>
  The chunk loop of \<open>StreamRecordToClient\<close>. The caller has rejected a chunk size
  that is not positive; the first branch keeps the function total.
\<close>

function streamChunks :: "Context \<Rightarrow> StreamWriter \<Rightarrow> Reader \<Rightarrow> nat \<Rightarrow> error option \<times> StreamWriter" where
  "streamChunks ctx stream reader chunkSize =
     (if chunkSize = 0 then (Some (ErrorNew ''invalid encrypted chunk size''), stream)
      else
        (case ctx_Done ctx of
           (Some cerr, ctx1) \<Rightarrow> (Some (Errorf ''context cancelled during streaming'' cerr), stream)
         | (None, ctx1) \<Rightarrow>
             (case ReadFull reader chunkSize of
                (buf, None, reader1) \<Rightarrow>
                  (case Send stream \<lparr>resp_Metadata = None, resp_DataChunk = Some buf, IsLastChunk = False\<rparr> of
                     (Some sendErr, stream1) \<Rightarrow> (Some (Errorf ''failed to send data chunk'' sendErr), stream1)
                   | (None, stream1) \<Rightarrow>
                       streamChunks ctx1 stream1 reader1 chunkSize)
              | (buf, Some err, reader1) \<Rightarrow>
                  if err = EOF \<and> length buf = 0 then (None, stream)
                  else if err = ErrUnexpectedEOF then
                    (case Send stream \<lparr>resp_Metadata = None, resp_DataChunk = Some buf, IsLastChunk = True\<rparr> of
                       (Some sendErr, stream1) \<Rightarrow>
                         (Some (Errorf ''failed to send last data chunk'' sendErr), stream1)
                     | (None, stream1) \<Rightarrow> (None, stream1))
                  else (Some (Errorf ''error reading from S3 stream'' err), stream))))"
  by pat_completeness auto
termination
  by (relation "measure (\<lambda>(ctx, stream, reader, chunkSize). length (r_data reader))")
     (auto simp: ReadFull_def split: if_splits option.splits)

text \<open>
  The data frames the chunk loop sends for a blob when nothing fails: full chunks,
  unflagged, and a short rest, flagged as last chunk.
\<close>

function data_frames :: "nat \<Rightarrow> byte list \<Rightarrow> GetRecordStreamResponse list" where
  "data_frames n bytes =
     (if n = 0 \<or> bytes = [] then []
      else if length bytes < n
      then [\<lparr>resp_Metadata = None, resp_DataChunk = Some bytes, IsLastChunk = True\<rparr>]
      else \<lparr>resp_Metadata = None, resp_DataChunk = Some (take n bytes), IsLastChunk = False\<rparr> #
           data_frames n (drop n bytes))"
  by pat_completeness auto
termination
  by (relation "measure (\<lambda>(n, bytes). length bytes)") auto

text \<open>\<open>Record.StreamRecordToClient\<close>.\<close>

definition StreamRecordToClient ::
  "world \<Rightarrow> Context \<Rightarrow> uuid \<Rightarrow> uuid \<Rightarrow> StreamWriter \<Rightarrow> (error option \<times> StreamWriter) \<times> world" where
  "StreamRecordToClient w ctx userID recordID stream =
     (if userID = uuid_Nil then ((Some (ErrorNew ''userID cannot be nil''), stream), w)
      else if recordID = uuid_Nil then ((Some (ErrorNew ''recordID cannot be nil''), stream), w)
      else
        (case GetRecord w userID recordID of
           (Inl err, w1) \<Rightarrow>
             if errors_Is err ErrNotFound then ((Some (APIError (ErrRecordNotFound recordID)), stream), w1)
             else ((Some (Errorf ''failed to get record'' err), stream), w1)
         | (Inr record, w1) \<Rightarrow>
             (let metadata = buildRecordMetadata record in
              case ctx_Done ctx of
                (Some cerr, ctx1) \<Rightarrow>
                  ((Some (Errorf ''context cancelled before sending metadata'' cerr), stream), w1)
              | (None, ctx1) \<Rightarrow>
                  (case Send stream \<lparr>resp_Metadata = Some metadata, resp_DataChunk = None,
                                     IsLastChunk = False\<rparr> of
                     (Some err, stream1) \<Rightarrow> ((Some (Errorf ''failed to send metadata'' err), stream1), w1)
                   | (None, stream1) \<Rightarrow>
                       if S3Key record \<noteq> [] then
                         (case GetRecordDataStream w1 (S3Key record) of
                            (Inl err, w2) \<Rightarrow>
                              ((Some (Errorf ''failed to get data stream from S3'' err), stream1), w2)
                          | (Inr reader, w2) \<Rightarrow>
                              (let chunkSize = EncryptedChunkSize record in
                               if chunkSize \<le> 0
                               then ((Some (ErrorNew ''invalid encrypted chunk size''), stream1), w2)
                               else (streamChunks ctx1 stream1 reader (nat chunkSize), w2)))
                       else ((Some (ErrorNew ''no data available for record''), stream1), w1)))))"

section \<open>Worked examples\<close>

text \<open>
  Concrete values for the instances below: a stand-in for SHA-256 that keeps apart the
  tokens used, a service, and a world with two users and empty tables.
\<close>

definition toy_hash :: "token \<Rightarrow> byte list" where
  "toy_hash t =
     (case t of
        Signed k c \<Rightarrow> map of_char (cl_ID c)
      | Malformed s \<Rightarrow> [])"

definition ex_service :: TokenService where
  "ex_service = \<lparr>secretKey = ''secret'', hashRefresh = toy_hash\<rparr>"

definition ex_world :: world where
  "ex_world = \<lparr>clock = 1000, db_sched = [],
     users = [\<lparr>us_ID = 7, us_Email = ''a@b.c'', us_DeletedAt = None\<rparr>,
              \<lparr>us_ID = 8, us_Email = ''d@e.f'', us_DeletedAt = None\<rparr>],
     refresh_tokens = [], records = [], s3_sched = [], objects = [], s3_calls = [], logs = []\<rparr>"

definition ex_row :: RefreshToken where
  "ex_row = \<lparr>rt_ID = 10, rt_JTI = ''j1'', rt_UserID = 7, rt_TokenHash = [9, 9],
     rt_IssuedAt = 0, rt_ExpiresAt = 5000, rt_RevokedAt = None, rt_RotatedFromJTI = None,
     rt_CreatedAt = 0, rt_UpdatedAt = 0\<rparr>"

definition ex_token :: token where
  "ex_token = Signed ''secret'' \<lparr>cl_ID = ''j1'', cl_IssuedAt = 0, cl_ExpiresAt = 5000,
     cl_UserID = 7, cl_TokenType = typeRefresh\<rparr>"

definition ex_md :: RecordMetadata where
  "ex_md = \<lparr>md_ID = [], md_Name = ''f'', md_Description = [], md_Type = RecordTypeBinary,
     md_EncryptedKey = [7], md_Alg = ''a'', md_ChunkSize = 4, md_RequestID = uuid_Nil\<rparr>"

definition meta_frame :: "RecordMetadata \<Rightarrow> CreateRecordStreamRequest" where
  "meta_frame md = \<lparr>Metadata = Some md, DataChunk = None, IsMetadata = True\<rparr>"

definition chunk_frame :: "byte list \<Rightarrow> CreateRecordStreamRequest" where
  "chunk_frame d = \<lparr>Metadata = None, DataChunk = Some d, IsMetadata = False\<rparr>"

definition ex_binary :: Record where
  "ex_binary = Record_zero\<lparr>ID := 5, OwnerID := 7, Name := ''bin'', EncryptedKey := [7],
     Alg := ''a'', Type := RecordTypeBinary, S3Key := ''s3'', EncryptedChunkSize := 4\<rparr>"

definition ex_blob_world :: world where
  "ex_blob_world = ex_world\<lparr>records := [ex_binary], objects := [(''s3'', [1, 2, 3, 4])]\<rparr>"

definition ex_writer :: StreamWriter where
  "ex_writer = \<lparr>sent = [], send_sched = []\<rparr>"



definition ex_failing_world :: world where
  "ex_failing_world = ex_world\<lparr>db_sched := [(0, None), (3, Some (ErrorNew ''db-fail''))]\<rparr>"

definition ex_stream :: StreamReader where
  "ex_stream = [Inr (meta_frame ex_md), Inr (chunk_frame [1, 2, 3, 4]), Inr (chunk_frame [5])]"



section \<open>Properties\<close>

lemma xor_byte_zero_iff: "(x::byte) XOR y = 0 \<longleftrightarrow> x = y"
  by (metis bit.xor_left_self xor.right_neutral)

lemma xor_fold_zero_iff:
  "length xs = length ys \<Longrightarrow> xor_fold v xs ys = 0 \<longleftrightarrow> v = 0 \<and> xs = ys"
proof (induction v xs ys rule: xor_fold.induct)
  case (1 v x xs y ys)
  then show ?case by (auto simp: or_eq_0_iff xor_byte_zero_iff)
qed auto

lemma equalBytes_iff: "equalBytes a b \<longleftrightarrow> a = b"
  by (auto simp: equalBytes_def ConstantTimeCompare_def xor_fold_zero_iff)

lemma db_call_idle: "db_sched w = [] \<Longrightarrow> db_call w = (None, w)"
  by (simp add: db_call_def)

text \<open>
  Claim C4. For a presented token that parses and whose row is found, \<open>Refresh\<close>
  rejects with \<open>ErrTokenRevoked\<close> when the row's \<open>revokedAt\<close> is set, else with
  \<open>ErrTokenExpired\<close> when the current time is after \<open>expiresAt\<close>, else with
  \<open>ErrTokenMismatch\<close> when the hash of the presented token differs from the stored
  hash (compared by \<open>ConstantTimeCompare\<close>, which folds over all bytes); otherwise
  validation passes and the rotation runs.
\<close>

theorem Refresh_validation_order:
  assumes "ParseRefreshToken (secretKey s) (clock w) p = Inr (userID, jti)"
      and "GetByJTI w jti = (Inr rt, w1)"
  shows "validateRecord rt (hashRefresh s p) (clock w1) =
           (if rt_RevokedAt rt \<noteq> None then Some ErrTokenRevoked
            else if clock w1 > rt_ExpiresAt rt then Some ErrTokenExpired
            else if hashRefresh s p \<noteq> rt_TokenHash rt then Some ErrTokenMismatch
            else None)
       \<and> Refresh s w p newID newJTI repoID =
           (if rt_RevokedAt rt \<noteq> None then (Inl ErrTokenRevoked, w1)
            else if clock w1 > rt_ExpiresAt rt then (Inl ErrTokenExpired, w1)
            else if hashRefresh s p \<noteq> rt_TokenHash rt then (Inl ErrTokenMismatch, w1)
            else Refresh_rotate s w1 (userID, jti, rt) newID newJTI repoID)"
  using assms by (auto simp: Refresh_def Refresh_validate_def validateRecord_def equalBytes_iff)

theorem Refresh_validation_order_witness:
  "ParseRefreshToken (secretKey ex_service) (clock (ex_world\<lparr>refresh_tokens := [ex_row]\<rparr>)) ex_token
     = Inr (7, ''j1'') \<and>
   GetByJTI (ex_world\<lparr>refresh_tokens := [ex_row]\<rparr>) ''j1'' =
     (Inr ex_row, ex_world\<lparr>refresh_tokens := [ex_row]\<rparr>) \<and>
   validateRecord ex_row (hashRefresh ex_service ex_token)
     (clock (ex_world\<lparr>refresh_tokens := [ex_row]\<rparr>)) = Some ErrTokenMismatch \<and>
   Refresh ex_service (ex_world\<lparr>refresh_tokens := [ex_row]\<rparr>) ex_token 11 ''j2'' 0 =
     (Inl ErrTokenMismatch, ex_world\<lparr>refresh_tokens := [ex_row]\<rparr>)"
proof -
  let ?w = "ex_world\<lparr>refresh_tokens := [ex_row]\<rparr>"
  have p: "ParseRefreshToken (secretKey ex_service) (clock ?w) ex_token = Inr (7, ''j1'')"
    by (simp add: ParseRefreshToken_def ParseWithClaims_def ex_service_def ex_world_def ex_token_def)
  have g: "GetByJTI ?w ''j1'' = (Inr ex_row, ?w)"
    by (simp add: GetByJTI_def db_call_def ex_world_def ex_row_def)
  have h: "hashRefresh ex_service ex_token \<noteq> rt_TokenHash ex_row"
    by (simp add: ex_service_def ex_token_def toy_hash_def ex_row_def)
  have r: "rt_RevokedAt ex_row = None" "\<not> clock ?w > rt_ExpiresAt ex_row"
    by (simp_all add: ex_row_def ex_world_def)
  from Refresh_validation_order[OF p g, of 11 "''j2''" 0] h r
  have "validateRecord ex_row (hashRefresh ex_service ex_token) (clock ?w) = Some ErrTokenMismatch \<and>
        Refresh ex_service ?w ex_token 11 ''j2'' 0 = (Inl ErrTokenMismatch, ?w)"
    by simp
  with p g show ?thesis by blast
qed

lemma NewNumericDate_le: "NewNumericDate t \<le> t"
  by (simp add: NewNumericDate_def Second_def)

lemma find_jti_append:
  "\<not> jti_taken xs j \<Longrightarrow> find (\<lambda>r. rt_JTI r = j) (xs @ ys) = find (\<lambda>r. rt_JTI r = j) ys"
  by (induction xs) (auto simp: jti_taken_def)

lemma jti_taken_append: "jti_taken (xs @ ys) j \<longleftrightarrow> jti_taken xs j \<or> jti_taken ys j"
  by (auto simp: jti_taken_def list_ex_iff)

lemma jti_taken_single: "jti_taken [r] j \<longleftrightarrow> rt_JTI r = j"
  by (simp add: jti_taken_def)

lemma jti_taken_revoke: "jti_taken (revoke_where P now xs) j \<longleftrightarrow> jti_taken xs j"
  by (induction xs) (auto simp: jti_taken_def revoke_where_def revoke_row_def)

lemma id_taken_append: "id_taken (xs @ ys) i \<longleftrightarrow> id_taken xs i \<or> id_taken ys i"
  by (auto simp: id_taken_def list_ex_iff)

lemma id_taken_single: "id_taken [r] i \<longleftrightarrow> rt_ID r = i"
  by (simp add: id_taken_def)

lemma id_taken_revoke: "id_taken (revoke_where P now xs) i \<longleftrightarrow> id_taken xs i"
  by (induction xs) (auto simp: id_taken_def revoke_where_def revoke_row_def)



lemma Issue_idle:
  assumes "db_sched w = []" and "Issue s w u nid j rid = (Inr (a, r), w1)"
  shows "\<not> jti_taken (refresh_tokens w) j \<and> user_exists (users w) u \<and>
     r = Signed (secretKey s) \<lparr>cl_ID = j, cl_IssuedAt = NewNumericDate (clock w),
                        cl_ExpiresAt = NewNumericDate (clock w + refreshTTL),
                        cl_UserID = u, cl_TokenType = typeRefresh\<rparr> \<and>
     w1 = w\<lparr>refresh_tokens := refresh_tokens w @
            [\<lparr>rt_ID = (if nid = uuid_Nil then rid else nid), rt_JTI = j, rt_UserID = u,
              rt_TokenHash = hashRefresh s r, rt_IssuedAt = clock w,
              rt_ExpiresAt = clock w + refreshTTL, rt_RevokedAt = None,
              rt_RotatedFromJTI = None, rt_CreatedAt = clock w, rt_UpdatedAt = clock w\<rparr>]\<rparr>"
  using assms
  by (auto simp: Issue_def RefreshTokenRepository_Create_def db_call_idle GenerateRefreshToken_def Let_def
      split: if_splits)

lemma Refresh_validate_idle_ok:
  assumes idle: "db_sched w = []"
    and tok: "p = Signed (secretKey s) c" "cl_TokenType c = typeRefresh" "clock w < cl_ExpiresAt c"
    and row: "find (\<lambda>r. rt_JTI r = cl_ID c) (refresh_tokens w) = Some rt"
    and ok: "rt_RevokedAt rt = None" "clock w \<le> rt_ExpiresAt rt" "rt_TokenHash rt = hashRefresh s p"
  shows "Refresh_validate s w p = (Inr (cl_UserID c, cl_ID c, rt), w)"
  using assms
  by (auto simp: Refresh_validate_def ParseRefreshToken_def
      ParseWithClaims_def GetByJTI_def db_call_idle validateRecord_def equalBytes_iff)

lemma Refresh_rotate_idle_ok:
  assumes idle: "db_sched w = []"
    and fresh: "\<not> jti_taken (refresh_tokens w) nj" "nid \<noteq> uuid_Nil"
      "\<not> id_taken (refresh_tokens w) nid"
    and user: "user_exists (users w) u"
  shows "Refresh_rotate s w (u, j, rt) nid nj rid =
     (Inr (GenerateAccessToken (secretKey s) (clock w) u,
           fst (GenerateRefreshToken (secretKey s) (clock w) u nj)),
      w\<lparr>refresh_tokens := revoke_where (\<lambda>r. rt_JTI r = j) (clock w) (refresh_tokens w) @
            [\<lparr>rt_ID = nid, rt_JTI = nj, rt_UserID = u,
              rt_TokenHash = hashRefresh s (fst (GenerateRefreshToken (secretKey s) (clock w) u nj)),
              rt_IssuedAt = clock w,
              rt_ExpiresAt = clock w + refreshTTL, rt_RevokedAt = None,
              rt_RotatedFromJTI = Some (rt_JTI rt), rt_CreatedAt = clock w, rt_UpdatedAt = clock w\<rparr>]\<rparr>)"
  using assms
  by (auto simp: Refresh_rotate_def RevokeByJTI_def RefreshTokenRepository_Create_def db_call_idle
       GenerateRefreshToken_def Let_def jti_taken_revoke id_taken_revoke)


text \<open>
  Claim C3. Two callers present the same issued refresh token before its expiry. Both
  run the validation (parse, load the row, \<open>validateRecord\<close>) before either runs the
  rotation; then both rotations succeed and return different fresh pairs: the conditional
  \<open>UPDATE\<close> of the second caller changes no row and \<open>RevokeByJTI\<close> reports no
  error for that. The identifiers drawn by \<open>uuid.New()\<close> and \<open>uuid.NewString()\<close>
  are new ones.
\<close>

theorem concurrent_refresh_both_succeed:
  assumes idle: "db_sched w0 = []"
    and issue: "Issue s w0 u id1 j1 rid1 = (Inr (a1, r1), w1)"
    and time: "clock w0 + int d < NewNumericDate (clock w0 + refreshTTL)"
    and fresh_jti: "\<not> jti_taken (refresh_tokens w1) jA" "\<not> jti_taken (refresh_tokens w1) jB"
      "jA \<noteq> jB"
    and fresh_id: "idA \<noteq> uuid_Nil" "idB \<noteq> uuid_Nil" "\<not> id_taken (refresh_tokens w1) idA"
      "\<not> id_taken (refresh_tokens w1) idB" "idA \<noteq> idB"
  shows "\<exists>lA lB accA rA wa accB rB wb.
      Refresh_validate s (advance w1 d) r1 = (Inr lA, advance w1 d) \<and>
      Refresh_validate s (advance w1 d) r1 = (Inr lB, advance w1 d) \<and>
      Refresh_rotate s (advance w1 d) lA idA jA ridA = (Inr (accA, rA), wa) \<and>
      Refresh_rotate s wa lB idB jB ridB = (Inr (accB, rB), wb) \<and> rA \<noteq> rB"
proof -
  note I = Issue_idle[OF idle issue]
  let ?c = "\<lparr>cl_ID = j1, cl_IssuedAt = NewNumericDate (clock w0),
             cl_ExpiresAt = NewNumericDate (clock w0 + refreshTTL),
             cl_UserID = u, cl_TokenType = typeRefresh\<rparr>"
  let ?rt = "\<lparr>rt_ID = (if id1 = uuid_Nil then rid1 else id1), rt_JTI = j1, rt_UserID = u,
              rt_TokenHash = hashRefresh s r1, rt_IssuedAt = clock w0,
              rt_ExpiresAt = clock w0 + refreshTTL, rt_RevokedAt = None,
              rt_RotatedFromJTI = None, rt_CreatedAt = clock w0, rt_UpdatedAt = clock w0\<rparr>"
  let ?w = "advance w1 d"
  have r1: "r1 = Signed (secretKey s) ?c" and nj1: "\<not> jti_taken (refresh_tokens w0) j1"
    and usr0: "user_exists (users w0) u"
    and tbl1: "refresh_tokens w1 = refresh_tokens w0 @ [?rt]"
    and idle1: "db_sched w1 = []" and clk1: "clock w1 = clock w0" and usr1: "users w1 = users w0"
    using I idle by auto
  have idle_w: "db_sched ?w = []" and clk_w: "clock ?w = clock w0 + int d"
    and tbl_w: "refresh_tokens ?w = refresh_tokens w1" and usr_w: "user_exists (users ?w) u"
    using idle1 clk1 usr1 usr0 by (simp_all add: advance_def)
  have row: "find (\<lambda>r. rt_JTI r = cl_ID ?c) (refresh_tokens ?w) = Some ?rt"
    using nj1 by (simp add: tbl_w tbl1 find_jti_append)
  have le: "clock ?w \<le> rt_ExpiresAt ?rt"
    using time NewNumericDate_le[of "clock w0 + refreshTTL"] by (simp add: clk_w)
  have v: "Refresh_validate s ?w r1 = (Inr (u, j1, ?rt), ?w)"
    using Refresh_validate_idle_ok[OF idle_w r1 _ _ row _ le] time r1 by (simp add: clk_w)
  have fA: "\<not> jti_taken (refresh_tokens ?w) jA" "\<not> id_taken (refresh_tokens ?w) idA"
    using fresh_jti fresh_id by (simp_all add: tbl_w)
  obtain accA rA wa where A: "Refresh_rotate s ?w (u, j1, ?rt) idA jA ridA = (Inr (accA, rA), wa)"
    and wa: "db_sched wa = []" "\<not> jti_taken (refresh_tokens wa) jB" "idB \<noteq> uuid_Nil"
      "\<not> id_taken (refresh_tokens wa) idB"
    and ua: "user_exists (users wa) u"
    and rA: "rA = fst (GenerateRefreshToken (secretKey s) (clock ?w) u jA)" "clock wa = clock ?w"
    using Refresh_rotate_idle_ok[OF idle_w fA(1) fresh_id(1) fA(2) usr_w, of s j1 ?rt ridA]
      idle_w usr_w fresh_jti fresh_id
    by (simp add: tbl_w jti_taken_append jti_taken_revoke jti_taken_single
        id_taken_append id_taken_revoke id_taken_single)
  obtain accB rB wb where B: "Refresh_rotate s wa (u, j1, ?rt) idB jB ridB = (Inr (accB, rB), wb)"
    and rB: "rB = fst (GenerateRefreshToken (secretKey s) (clock wa) u jB)"
    using Refresh_rotate_idle_ok[OF wa ua, of s j1 ?rt ridB] by simp
  have "rA \<noteq> rB" using rA rB fresh_jti(3) by (simp add: GenerateRefreshToken_def)
  with v A B show ?thesis by blast
qed

theorem concurrent_refresh_both_succeed_witness:
  "\<exists>a1 r1 w1 lA lB accA rA wa accB rB wb.
      Issue ex_service ex_world 7 10 ''j1'' 0 = (Inr (a1, r1), w1) \<and>
      Refresh_validate ex_service (advance w1 5) r1 = (Inr lA, advance w1 5) \<and>
      Refresh_validate ex_service (advance w1 5) r1 = (Inr lB, advance w1 5) \<and>
      Refresh_rotate ex_service (advance w1 5) lA 11 ''jA'' 0 = (Inr (accA, rA), wa) \<and>
      Refresh_rotate ex_service wa lB 12 ''jB'' 0 = (Inr (accB, rB), wb) \<and> rA \<noteq> rB"
proof -
  have idle: "db_sched ex_world = []" by (simp add: ex_world_def)
  obtain a1 r1 w1 where i: "Issue ex_service ex_world 7 10 ''j1'' 0 = (Inr (a1, r1), w1)"
    by (simp add: Issue_def RefreshTokenRepository_Create_def db_call_def GenerateRefreshToken_def
        jti_taken_def id_taken_def user_exists_def ex_world_def uuid_Nil_def)
  have tbl: "map rt_JTI (refresh_tokens w1) = [''j1'']" "map rt_ID (refresh_tokens w1) = [10]"
    using Issue_idle[OF idle i] by (simp_all add: ex_world_def uuid_Nil_def)
  have fj: "\<not> jti_taken (refresh_tokens w1) ''jA''" "\<not> jti_taken (refresh_tokens w1) ''jB''"
    "''jA'' \<noteq> ''jB''"
    using tbl by (auto simp: jti_taken_def list_ex_iff)
  have fi: "(11::nat) \<noteq> uuid_Nil" "(12::nat) \<noteq> uuid_Nil" "\<not> id_taken (refresh_tokens w1) 11"
    "\<not> id_taken (refresh_tokens w1) 12" "(11::nat) \<noteq> 12"
    using tbl by (auto simp: id_taken_def list_ex_iff uuid_Nil_def)
  have t: "clock ex_world + int 5 < NewNumericDate (clock ex_world + refreshTTL)"
    by (simp add: ex_world_def NewNumericDate_def refreshTTL_def Hour_def Minute_def Second_def)
  from concurrent_refresh_both_succeed[OF idle i t fj fi, of 0 0] i
  show ?thesis by fastforce
qed




declare readMetadataLoop.simps [simp del] pump.simps [simp del] streamChunks.simps [simp del]
  uuid_String.simps [simp del] data_frames.simps [simp del]

subsection \<open>Records\<close>

lemma advance_simps:
  "db_sched (advance w d) = db_sched w" "records (advance w d) = records w"
  "users (advance w d) = users w" "clock (advance w d) = clock w + int d"
  "s3_sched (advance w d) = s3_sched w" "objects (advance w d) = objects w"
  "s3_calls (advance w d) = s3_calls w" "logs (advance w d) = logs w"
  by (simp_all add: advance_def)



lemma RecordRepository_GetByID_idle:
  "db_sched w = [] \<Longrightarrow> RecordRepository_GetByID w rid =
     (case find (\<lambda>r. ID r = rid \<and> DeletedAt r = None) (records w) of
        None \<Rightarrow> (Inl ErrNotFound, w) | Some r \<Rightarrow> (Inr (scan_row r), w))"
  by (simp add: RecordRepository_GetByID_def db_call_idle)




lemma s3_call_frame:
  "records (snd (s3_call w c)) = records w" "db_sched (snd (s3_call w c)) = db_sched w"
  "users (snd (s3_call w c)) = users w"
  by (auto simp: s3_call_def split: list.splits)

lemma Delete_frame:
  "records (snd (Delete w k)) = records w" "db_sched (snd (Delete w k)) = db_sched w"
  using s3_call_frame[of w "S3Delete k"]
  by (auto simp: Delete_def split: prod.splits option.splits)

lemma logger_frame:
  "records (logger w m) = records w" "db_sched (logger w m) = db_sched w"
  by (simp_all add: logger_def)

lemma SoftDelete_idle:
  "db_sched w = [] \<Longrightarrow> SoftDelete w rid =
     (if \<not> list_ex (\<lambda>r. ID r = rid \<and> DeletedAt r = None) (records w) then (Some ErrNotFound, w)
      else (None, w\<lparr>records :=
                  map (\<lambda>r. if ID r = rid \<and> DeletedAt r = None
                            then r\<lparr>DeletedAt := Some (clock w), UpdatedAt := clock w\<rparr> else r)
                    (records w)\<rparr>))"
  by (simp add: SoftDelete_def db_call_idle)

lemma find_after_soft_delete:
  "find (\<lambda>r. ID r = rid \<and> DeletedAt r = None)
     (map (\<lambda>r. if ID r = rid \<and> DeletedAt r = None
                then r\<lparr>DeletedAt := Some t, UpdatedAt := t\<rparr> else r) rows) = None"
  by (induction rows) auto

lemma DeleteRecord_hides:
  assumes idle: "db_sched w = []" and del: "DeleteRecord w u rid = (None, w1)"
  shows "db_sched w1 = [] \<and> find (\<lambda>r. ID r = rid \<and> DeletedAt r = None) (records w1) = None"
proof -
  obtain r where g: "find (\<lambda>r. ID r = rid \<and> DeletedAt r = None) (records w) = Some r"
    using del idle by (auto simp: DeleteRecord_def RecordRepository_GetByID_idle split: option.splits if_splits)
  define w2 where "w2 = (if S3Key (scan_row r) \<noteq> []
                       then (case Delete w (S3Key (scan_row r)) of
                               (Some err, w') \<Rightarrow> logger w' ''Failed to delete object from storage''
                             | (None, w') \<Rightarrow> w')
                       else w)"
  have fr: "records w2 = records w" "db_sched w2 = []"
    using Delete_frame[of w "S3Key (scan_row r)"] idle
    by (auto simp: w2_def logger_frame split: prod.splits option.splits)
  have sd: "SoftDelete w2 rid = (None, w1)"
    using del idle g by (auto simp: DeleteRecord_def RecordRepository_GetByID_idle w2_def Let_def
        split: if_splits prod.splits option.splits)
  then show ?thesis
    using fr by (auto simp: SoftDelete_idle find_after_soft_delete split: if_splits)
qed

text \<open>
  Claim C10. Once \<open>DeleteRecord\<close> has succeeded for a record id, no point lookup
  returns the record to any caller, the owner included: the store's \<open>GetByID\<close> and
  \<open>SoftDelete\<close> only consider rows whose \<open>deleted_at\<close> is unset. The streaming
  download and a repeated \<open>DeleteRecord\<close> fail with the record-not-found API error,
  and the \<open>DeleteRecord\<close> endpoint answers NotFound. \<open>GetRecord\<close> fails with
  \<open>model.ErrNotFound\<close> wrapped by \<open>fmt.Errorf\<close>, which is not the API error and
  which \<open>handleError\<close> does not recognise: the \<open>GetRecord\<close> endpoint answers
  Internal instead of NotFound. (The streaming download is asked with non-nil ids, as the
  ids of a user and of a record are.)
\<close>

theorem deleted_record_GetRecord_answers_Internal:
  assumes idle: "db_sched w = []"
    and del: "DeleteRecord w owner rid = (None, w1)"
    and ids: "u \<noteq> uuid_Nil" "rid \<noteq> uuid_Nil"
  shows "GetRecord (advance w1 d) u rid =
           (Inl (Errorf ''failed to get record by id'' ErrNotFound), advance w1 d)
     \<and> handler_GetRecord (advance w1 d) u rid =
           (Inl (Status Internal (Msg ''internal server error'')), advance w1 d)
     \<and> StreamRecordToClient (advance w1 d) ctx u rid sw =
           ((Some (APIError (ErrRecordNotFound rid)), sw), advance w1 d)
     \<and> DeleteRecord (advance w1 d) u rid = (Some (APIError (ErrRecordNotFound rid)), advance w1 d)
     \<and> handler_DeleteRecord (advance w1 d) u rid =
           (Some (Status NotFound (APIMessage (ErrRecordNotFound rid))), advance w1 d)"
proof -
  let ?w = "advance w1 d"
  from DeleteRecord_hides[OF idle del]
  have i: "db_sched ?w = []" and f: "find (\<lambda>r. ID r = rid \<and> DeletedAt r = None) (records ?w) = None"
    by (simp_all add: advance_simps)
  have g: "GetRecord ?w u rid = (Inl (Errorf ''failed to get record by id'' ErrNotFound), ?w)"
    by (simp add: GetRecord_def RecordRepository_GetByID_idle[OF i] f)
  have h: "handler_GetRecord ?w u rid = (Inl (Status Internal (Msg ''internal server error'')), ?w)"
    by (simp add: handler_GetRecord_def g)
  have st: "StreamRecordToClient ?w ctx u rid sw = ((Some (APIError (ErrRecordNotFound rid)), sw), ?w)"
    using ids by (simp add: StreamRecordToClient_def g)
  have dl: "DeleteRecord ?w u rid = (Some (APIError (ErrRecordNotFound rid)), ?w)"
    by (simp add: DeleteRecord_def RecordRepository_GetByID_idle[OF i] f)
  have hd: "handler_DeleteRecord ?w u rid =
      (Some (Status NotFound (APIMessage (ErrRecordNotFound rid))), ?w)"
    by (simp add: handler_DeleteRecord_def dl)
  from g h st dl hd show ?thesis by simp
qed

theorem deleted_record_GetRecord_answers_Internal_witness:
  "\<exists>w1. DeleteRecord ex_blob_world 7 5 = (None, w1) \<and>
     GetRecord (advance w1 3) 7 5 =
       (Inl (Errorf ''failed to get record by id'' ErrNotFound), advance w1 3) \<and>
     handler_GetRecord (advance w1 3) 7 5 =
       (Inl (Status Internal (Msg ''internal server error'')), advance w1 3) \<and>
     StreamRecordToClient (advance w1 3) [] 7 5 ex_writer =
       ((Some (APIError (ErrRecordNotFound 5)), ex_writer), advance w1 3) \<and>
     DeleteRecord (advance w1 3) 7 5 = (Some (APIError (ErrRecordNotFound 5)), advance w1 3) \<and>
     handler_DeleteRecord (advance w1 3) 7 5 =
       (Some (Status NotFound (APIMessage (ErrRecordNotFound 5))), advance w1 3)"
proof -
  have idle: "db_sched ex_blob_world = []" by (simp add: ex_blob_world_def ex_world_def)
  obtain w1 where del: "DeleteRecord ex_blob_world 7 5 = (None, w1)"
    by (simp add: DeleteRecord_def RecordRepository_GetByID_def SoftDelete_def Delete_def
        s3_call_def db_call_def ex_blob_world_def ex_world_def ex_binary_def Record_zero_def
        scan_row_def uuid_Nil_def Let_def)
  have ids: "(7::nat) \<noteq> uuid_Nil" "(5::nat) \<noteq> uuid_Nil" by (simp_all add: uuid_Nil_def)
  from deleted_record_GetRecord_answers_Internal[OF idle del ids, of 3 "[]" ex_writer] del
  show ?thesis by blast
qed

text \<open>
  Claim C1. For a caller who is not the owner of an existing record, \<open>GetRecord\<close>
  returns the record-not-found API error and the endpoint answers NotFound. For an id
  with no live row, \<open>GetRecord\<close> returns \<open>model.ErrNotFound\<close> wrapped by
  \<open>fmt.Errorf\<close>, which \<open>handleError\<close> does not recognise: the endpoint answers
  Internal. The two cases give different errors.
\<close>

theorem GetRecord_foreign_and_absent_differ:
  assumes idle: "db_sched w = []"
    and foreign: "find (\<lambda>r. ID r = rid \<and> DeletedAt r = None) (records w) = Some r" "OwnerID r \<noteq> u"
    and absent: "find (\<lambda>r. ID r = rid' \<and> DeletedAt r = None) (records w) = None"
  shows "GetRecord w u rid = (Inl (APIError (ErrRecordNotFound rid)), w)
     \<and> GetRecord w u rid' = (Inl (Errorf ''failed to get record by id'' ErrNotFound), w)
     \<and> handler_GetRecord w u rid = (Inl (Status NotFound (APIMessage (ErrRecordNotFound rid))), w)
     \<and> handler_GetRecord w u rid' = (Inl (Status Internal (Msg ''internal server error'')), w)"
  using assms
  by (simp add: handler_GetRecord_def GetRecord_def RecordRepository_GetByID_idle scan_row_def)

theorem GetRecord_foreign_and_absent_differ_witness:
  "GetRecord ex_blob_world 8 5 = (Inl (APIError (ErrRecordNotFound 5)), ex_blob_world) \<and>
   GetRecord ex_blob_world 8 6 = (Inl (Errorf ''failed to get record by id'' ErrNotFound), ex_blob_world) \<and>
   handler_GetRecord ex_blob_world 8 5 =
     (Inl (Status NotFound (APIMessage (ErrRecordNotFound 5))), ex_blob_world) \<and>
   handler_GetRecord ex_blob_world 8 6 =
     (Inl (Status Internal (Msg ''internal server error'')), ex_blob_world)"
proof -
  have idle: "db_sched ex_blob_world = []" by (simp add: ex_blob_world_def ex_world_def)
  have f: "find (\<lambda>r. ID r = 5 \<and> DeletedAt r = None) (records ex_blob_world) = Some ex_binary"
    "OwnerID ex_binary \<noteq> 8"
    by (simp_all add: ex_blob_world_def ex_binary_def Record_zero_def)
  have a: "find (\<lambda>r. ID r = 6 \<and> DeletedAt r = None) (records ex_blob_world) = None"
    by (simp add: ex_blob_world_def ex_binary_def Record_zero_def)
  show ?thesis
    by (rule GetRecord_foreign_and_absent_differ[OF idle f a])
qed


text \<open>
  Claim C2. In \<open>saveRecord\<close> with a data reader: when the upload succeeds and the
  insert fails with a backend error, the result is the insert failure, the only call to
  the blob store is the upload, and the uploaded object is still stored: no delete is
  issued for the blob key.
\<close>

theorem saveRecord_failed_insert_keeps_blob:
  assumes up: "s3_sched w = []" "r_err reader = None" "S3Key record \<noteq> []"
    and ins: "db_sched w = (d, Some err) # rest"
  shows "saveRecord w record (Some reader) =
           (Inl (Errorf ''failed to create record'' err),
            w\<lparr>clock := clock w + int d, db_sched := rest,
              objects := (S3Key record, r_data reader) # filter (\<lambda>kv. fst kv \<noteq> S3Key record) (objects w),
              s3_calls := s3_calls w @ [S3Upload (S3Key record)]\<rparr>)"
  using assms
  by (simp add: saveRecord_def Upload_def s3_call_def RecordRepository_Create_def db_call_def
      Record_zero_def)


lemma generateS3Key_nonempty: "userID \<noteq> uuid_Nil \<Longrightarrow> generateS3Key userID a b \<noteq> []"
  by (simp add: generateS3Key_def)

theorem saveRecord_failed_insert_keeps_blob_witness:
  "CreateRecordStream ex_failing_world [] 7 ex_stream 20 21 30 =
     (Inl (Errorf ''failed to save record'' (Errorf ''failed to create record'' (ErrorNew ''db-fail''))),
      ex_world\<lparr>clock := 1003, objects := [(generateS3Key 7 20 21, [1, 2, 3, 4, 5])],
                s3_calls := [S3Upload (generateS3Key 7 20 21)]\<rparr>)"
proof -
  let ?key = "generateS3Key 7 20 21"
  let ?w1 = "ex_world\<lparr>db_sched := [(3, Some (ErrorNew ''db-fail''))]\<rparr>"
  let ?rec = "Record_zero\<lparr>ID := 30, OwnerID := 7,
                               Name := md_Name ex_md, Description := md_Description ex_md,
                               EncryptedKey := md_EncryptedKey ex_md, EncryptedData := None,
                               Alg := md_Alg ex_md, Type := md_Type ex_md, S3Key := ?key,
                               EncryptedChunkSize := md_ChunkSize ex_md,
                               RequestID := md_RequestID ex_md\<rparr>"
  let ?rd = "\<lparr>r_data = [1, 2, 3, 4, 5], r_err = None\<rparr>"
  have key: "?key \<noteq> []" by (rule generateS3Key_nonempty) (simp add: uuid_Nil_def)
  have u: "UserRepository_GetByID ex_failing_world 7 =
      (Inr \<lparr>us_ID = 7, us_Email = ''a@b.c'', us_DeletedAt = None\<rparr>, ?w1)"
    by (simp add: UserRepository_GetByID_def db_call_def ex_failing_world_def ex_world_def)
  have m: "readMetadataFromStream [] ex_stream =
      (Inr ex_md, [], [Inr (chunk_frame [1, 2, 3, 4]), Inr (chunk_frame [5])])"
    by (simp add: readMetadataFromStream_def readMetadataLoop.simps maxAttempts_def ex_stream_def
        meta_frame_def)
  have v: "validateMetadata (Some ex_md) = None"
    by (simp add: validateMetadata_def ex_md_def RecordTypeBinary_def RecordTypeLogin_def
        RecordTypeNote_def RecordTypeCard_def)
  have p: "pump [] [Inr (chunk_frame [1, 2, 3, 4]), Inr (chunk_frame [5])] [] [] = (?rd, [])"
    by (simp add: pump.simps chunk_frame_def)
  have s: "saveRecord ?w1 ?rec (Some ?rd) =
      (Inl (Errorf ''failed to create record'' (ErrorNew ''db-fail'')),
       ?w1\<lparr>clock := clock ?w1 + int 3, db_sched := [],
             objects := (S3Key ?rec, r_data ?rd) # filter (\<lambda>kv. fst kv \<noteq> S3Key ?rec) (objects ?w1),
             s3_calls := s3_calls ?w1 @ [S3Upload (S3Key ?rec)]\<rparr>)"
    by (rule saveRecord_failed_insert_keeps_blob) (simp_all add: key ex_world_def)
  show ?thesis
    unfolding CreateRecordStream_def
    by (simp add: u m v p key Let_def s[simplified]) (simp add: ex_world_def)
qed








subsection \<open>Streaming\<close>






text \<open>
  The chunk loop on a blob, with no cancellation, read error or send error: the frames
  carry the blob's bytes in order, and a frame is flagged as last chunk exactly when the
  length of the blob is not a multiple of the chunk size.
\<close>

lemma streamChunks_frames:
  "0 < n \<Longrightarrow>
   streamChunks [] \<lparr>sent = fs, send_sched = []\<rparr> \<lparr>r_data = bytes, r_err = None\<rparr> n =
     (None, \<lparr>sent = fs @ data_frames n bytes, send_sched = []\<rparr>)"
proof (induction n bytes arbitrary: fs rule: data_frames.induct)
  case (1 n bytes)
  show ?case
  proof (cases "bytes = []")
    case True
    then show ?thesis using 1(2)
      by (subst streamChunks.simps, subst data_frames.simps) (simp add: ReadFull_def)
  next
    case False
    show ?thesis
    proof (cases "length bytes < n")
      case True
      then show ?thesis using False 1(2)
        by (subst streamChunks.simps, subst data_frames.simps)
           (simp add: ReadFull_def Send_def ErrUnexpectedEOF_def)
    next
      case ge: False
      have "streamChunks [] \<lparr>sent = fs, send_sched = []\<rparr> \<lparr>r_data = bytes, r_err = None\<rparr> n =
            streamChunks [] \<lparr>sent = fs @ [\<lparr>resp_Metadata = None, resp_DataChunk = Some (take n bytes),
                                           IsLastChunk = False\<rparr>], send_sched = []\<rparr>
              \<lparr>r_data = drop n bytes, r_err = None\<rparr> n"
        using ge 1(2) by (subst streamChunks.simps) (simp add: ReadFull_def Send_def)
      also have "\<dots> = (None, \<lparr>sent = (fs @ [\<lparr>resp_Metadata = None, resp_DataChunk = Some (take n bytes),
                                           IsLastChunk = False\<rparr>]) @ data_frames n (drop n bytes),
                              send_sched = []\<rparr>)"
        using 1(1)[OF _ _ 1(2)] False ge 1(2) by simp
      finally show ?thesis
        using False ge 1(2) by (subst data_frames.simps) simp
    qed
  qed
qed

lemma data_frames_concat:
  "0 < n \<Longrightarrow> concat (map (\<lambda>f. case resp_DataChunk f of None \<Rightarrow> [] | Some d \<Rightarrow> d) (data_frames n bytes)) = bytes"
proof (induction n bytes rule: data_frames.induct)
  case (1 n bytes)
  then show ?case
    by (subst data_frames.simps) auto
qed

lemma data_frames_flag:
  "0 < n \<Longrightarrow> list_ex IsLastChunk (data_frames n bytes) \<longleftrightarrow> length bytes mod n \<noteq> 0"
proof (induction n bytes rule: data_frames.induct)
  case (1 n bytes)
  show ?case
  proof (cases "bytes = [] \<or> length bytes < n")
    case True
    then show ?thesis using 1(2) by (subst data_frames.simps) auto
  next
    case False
    then have "length bytes mod n = length (drop n bytes) mod n"
      by (simp add: le_mod_geq)
    with False 1 show ?thesis by (subst data_frames.simps) auto
  qed
qed

text \<open>
  Claim C7. A blob of four bytes downloaded with chunk size four: the metadata frame is
  sent, then the four bytes as one chunk with \<open>IsLastChunk = False\<close>, and the call
  returns without error. No frame of the stream has \<open>IsLastChunk = True\<close>.
\<close>

theorem download_exact_multiple_has_no_last_chunk:
  "StreamRecordToClient ex_blob_world [] 7 5 ex_writer =
     ((None,
       \<lparr>sent = [\<lparr>resp_Metadata = Some (buildRecordMetadata ex_binary), resp_DataChunk = None,
                  IsLastChunk = False\<rparr>,
                 \<lparr>resp_Metadata = None, resp_DataChunk = Some [1, 2, 3, 4], IsLastChunk = False\<rparr>],
        send_sched = []\<rparr>),
      ex_blob_world\<lparr>s3_calls := [S3Download ''s3'']\<rparr>)"
proof -
  have g: "GetRecord ex_blob_world 7 5 = (Inr ex_binary, ex_blob_world)"
    by (simp add: GetRecord_def RecordRepository_GetByID_def db_call_def ex_blob_world_def
        ex_world_def ex_binary_def Record_zero_def scan_row_def uuid_Nil_def)
  have d: "GetRecordDataStream ex_blob_world ''s3'' =
      (Inr \<lparr>r_data = [1, 2, 3, 4], r_err = None\<rparr>, ex_blob_world\<lparr>s3_calls := [S3Download ''s3'']\<rparr>)"
    by (simp add: GetRecordDataStream_def Download_def s3_call_def ex_blob_world_def ex_world_def)
  have k: "S3Key ex_binary = ''s3''" "EncryptedChunkSize ex_binary = 4"
    by (simp_all add: ex_binary_def)
  show ?thesis
    by (simp add: StreamRecordToClient_def g d k uuid_Nil_def Send_def ex_writer_def
        streamChunks.simps ReadFull_def Let_def)
qed

end
